theory Spec2Isabelle
  imports Main
begin

section \<open>The authentication service of the server (services/auth.ts)\<close>

text \<open>
  The service exports five asynchronous functions: \<open>login\<close>, \<open>register\<close>,
  \<open>refreshToken\<close>, \<open>githubToken\<close> and \<open>githubData\<close>. Each one either returns an
  object or throws. A throw is modelled as a value \<open>Inl failure\<close>, a return as
  \<open>Inr object\<close>. The database is threaded through every function explicitly.
  \<open>githubToken\<close> only forwards a code to the provider; it reads neither the store nor
  a token and is left out.
\<close>

subsection \<open>Values, failures and the rows of the users table\<close>

text \<open>
  The objects the service returns are plain JavaScript objects: a list of keys with
  their values, in insertion order.
\<close>

datatype jsval =
    JNull
  | JNum int
  | JStr string
  | JObj "(string \<times> jsval) list"

text \<open>
  What \<open>jwt.verify\<close> throws when it rejects a token. None of these is an \<open>AppError\<close>.
\<close>

datatype jwt_error = JsonWebTokenError | TokenExpiredError | NotBeforeError

text \<open>
  Everything that can be thrown out of the service. \<open>AppError status message\<close> is the
  application's own typed failure (\<open>new AppError(404, ...)\<close>); the other constructors are
  exceptions of the runtime and of the libraries, which the service never catches.
\<close>

datatype failure =
    AppError nat string
  | JwtError jwt_error
  | Error string
  | TypeError string
  | AxiosError string

fun is_AppError :: "failure \<Rightarrow> bool" where
  "is_AppError (AppError s m) = True"
| "is_AppError e = False"

text \<open>
  A row of the table \<open>users\<close>, with the columns the service reads and writes:
  \<open>id\<close>, \<open>name\<close>, \<open>email\<close>, \<open>password\<close>, \<open>githubId\<close> and \<open>token_version\<close>.
  The column \<open>id\<close> is called \<open>id_col\<close> here. \<open>password\<close> and \<open>githubId\<close> are nullable:
  \<open>githubData\<close> inserts a row without a password, \<open>register\<close> one without a
  \<open>githubId\<close>.
\<close>

record user_row =
  id_col :: int
  name :: string
  email :: string
  password :: "string option"
  githubId :: "int option"
  token_version :: int

text \<open>
  Modelled from the spec: the database module (\<open>../database\<close>) and the schema of the
  table \<open>users\<close> are not part of the sources. The table is a list of rows together with
  the sequence that assigns the next id ("numeric id, store-assigned"). Nothing in this
  model of the store rejects a duplicate: uniqueness is left to the checks of the
  service.
\<close>

record db =
  users :: "user_row list"
  next_id :: int

text \<open>
  Modelled from the spec: \<open>db("users").insert(fields, "*")\<close>. The store assigns the id,
  the token version "starts at 0", and the columns that are not given are null. The
  inserted row is returned.
\<close>

definition insert_user ::
  "string \<Rightarrow> string \<Rightarrow> string option \<Rightarrow> int option \<Rightarrow> db \<Rightarrow> user_row \<times> db" where
  "insert_user name' email' password' githubId' d =
     (let user = \<lparr>id_col = next_id d, name = name', email = email',
                  password = password', githubId = githubId', token_version = 0\<rparr>
      in (user, d\<lparr>users := users d @ [user], next_id := next_id d + 1\<rparr>))"

text \<open>
  A row as the object the query builder hands to the service: every column is a key,
  a null column has the value \<open>null\<close>.
\<close>

definition row_object :: "user_row \<Rightarrow> (string \<times> jsval) list" where
  "row_object u =
     [(''id'', JNum (id_col u)),
      (''name'', JStr (name u)),
      (''email'', JStr (email u)),
      (''password'', (case password u of None \<Rightarrow> JNull | Some h \<Rightarrow> JStr h)),
      (''githubId'', (case githubId u of None \<Rightarrow> JNull | Some g \<Rightarrow> JNum g)),
      (''token_version'', JNum (token_version u))]"

text \<open>\<open>const { password: omit, ...rest } = user\<close>: the object without the key.\<close>

definition omit :: "string \<Rightarrow> (string \<times> jsval) list \<Rightarrow> (string \<times> jsval) list" where
  "omit k obj = filter (\<lambda>kv. fst kv \<noteq> k) obj"

definition has_key :: "string \<Rightarrow> (string \<times> jsval) list \<Rightarrow> bool" where
  "has_key k obj = (k \<in> set (map fst obj))"

subsection \<open>The collaborators: process environment, token codec, hasher, provider\<close>

record payloadProps =
  userId :: int
  tokenVersion :: int

record EmailProps =
  ep_email :: string
  primary :: bool
  verified :: bool
  visibility :: string

text \<open>The two fields the service reads from the provider's user profile.\<close>

record githubUser =
  gh_id :: int
  gh_login :: string

text \<open>
  The libraries and the network are parameters of the model. \<open>jwt_sign payload secret
  expiresIn\<close> is \<open>jwt.sign\<close>; \<open>jwt_verify token secret\<close> is \<open>jwt.verify\<close>, which returns
  the payload or throws one of its own errors; \<open>bcrypt_hash password rounds\<close> is
  \<open>bcrypt.hash\<close>; \<open>bcrypt_matches password hash\<close> is the comparison of \<open>bcrypt.compare\<close> on
  two strings; \<open>github_emails\<close> and \<open>github_user\<close> are the two \<open>axios.get\<close> calls, which
  return the response data or throw.
\<close>

record env =
  REFRESH_TOKEN_SECRET :: string
  REFRESH_TOKEN_EXPIRATION :: string
  ACCESS_TOKEN_SECRET :: string
  ACCESS_TOKEN_EXPIRATION :: string
  jwt_sign :: "payloadProps \<Rightarrow> string \<Rightarrow> string \<Rightarrow> string"
  jwt_verify :: "string \<Rightarrow> string \<Rightarrow> jwt_error + payloadProps"
  bcrypt_hash :: "string \<Rightarrow> nat \<Rightarrow> string"
  bcrypt_matches :: "string \<Rightarrow> string \<Rightarrow> bool"
  github_emails :: "string \<Rightarrow> string + EmailProps list"
  github_user :: "string \<Rightarrow> string + githubUser"

text \<open>
  \<open>bcrypt.compare(data, hash)\<close>. The library checks its arguments first: when the hash
  is null or undefined the promise is rejected with a plain \<open>Error\<close>; it resolves to a
  boolean only for a string hash.
\<close>

definition bcrypt_compare :: "env \<Rightarrow> string \<Rightarrow> string option \<Rightarrow> failure + bool" where
  "bcrypt_compare e data hash =
     (case hash of
        None \<Rightarrow> Inl (Error ''data and hash arguments required'')
      | Some h \<Rightarrow> Inr (bcrypt_matches e data h))"

subsection \<open>login\<close>

definition login :: "env \<Rightarrow> string \<Rightarrow> string \<Rightarrow> db \<Rightarrow> (failure + jsval) \<times> db" where
  "login e email' password' d =
     (case filter (\<lambda>u. email u = email') (users d) of
        [] \<Rightarrow> (Inl (AppError 404 ''User with given e-mail address not found.''), d)
      | user # _ \<Rightarrow>
          (case bcrypt_compare e password' (password user) of
             Inl err \<Rightarrow> (Inl err, d)
           | Inr match \<Rightarrow>
               if \<not> match then (Inl (AppError 401 ''Invalid password.''), d)
               else
                 let payload = \<lparr>userId = id_col user, tokenVersion = token_version user\<rparr>;
                     refreshToken' = jwt_sign e payload (REFRESH_TOKEN_SECRET e)
                                       (REFRESH_TOKEN_EXPIRATION e);
                     accessToken' = jwt_sign e payload (ACCESS_TOKEN_SECRET e)
                                      (ACCESS_TOKEN_EXPIRATION e);
                     rest = omit ''password'' (row_object user)
                 in (Inr (JObj [(''user'', JObj rest),
                                (''refreshToken'', JStr refreshToken'),
                                (''accessToken'', JStr accessToken')]), d)))"

subsection \<open>register\<close>

text \<open>
  \<open>RegisterArgs\<close> carries \<open>confirmPassword\<close> too; \<open>register\<close> destructures only
  \<open>name\<close>, \<open>email\<close> and \<open>password\<close> and never reads it.
\<close>

definition register ::
  "env \<Rightarrow> string \<Rightarrow> string \<Rightarrow> string \<Rightarrow> string \<Rightarrow> db \<Rightarrow> (failure + jsval) \<times> db" where
  "register e name' email' password' confirmPassword' d =
     (if filter (\<lambda>u. email u = email') (users d) \<noteq> []
      then (Inl (AppError 422 ''E-mail address is already taken.''), d)
      else if filter (\<lambda>u. name u = name') (users d) \<noteq> []
      then (Inl (AppError 422 ''Name is already taken.''), d)
      else
        let hashedPassword = bcrypt_hash e password' 12;
            (user, d') = insert_user name' email' (Some hashedPassword) None d;
            payload = \<lparr>userId = id_col user, tokenVersion = token_version user\<rparr>;
            refreshToken' = jwt_sign e payload (REFRESH_TOKEN_SECRET e)
                              (REFRESH_TOKEN_EXPIRATION e);
            accessToken' = jwt_sign e payload (ACCESS_TOKEN_SECRET e)
                             (ACCESS_TOKEN_EXPIRATION e);
            rest = omit ''password'' (row_object user)
        in (Inr (JObj [(''user'', JObj rest),
                       (''refreshToken'', JStr refreshToken'),
                       (''accessToken'', JStr accessToken')]), d'))"

subsection \<open>refreshToken\<close>

definition refreshToken :: "env \<Rightarrow> string \<Rightarrow> db \<Rightarrow> (failure + jsval) \<times> db" where
  "refreshToken e token d =
     (case jwt_verify e token (REFRESH_TOKEN_SECRET e) of
        Inl err \<Rightarrow> (Inl (JwtError err), d)
      | Inr payload \<Rightarrow>
          (case filter (\<lambda>u. id_col u = userId payload \<and>
                             token_version u = tokenVersion payload) (users d) of
             [] \<Rightarrow> (Inl (AppError 401 ''Refresh token is invalid.''), d)
           | user # _ \<Rightarrow>
               let newPayload = \<lparr>userId = id_col user, tokenVersion = token_version user\<rparr>;
                   accessToken' = jwt_sign e newPayload (ACCESS_TOKEN_SECRET e)
                                    (ACCESS_TOKEN_EXPIRATION e)
               in (Inr (JObj [(''accessToken'', JStr accessToken')]), d)))"

subsection \<open>githubData\<close>

text \<open>
  \<open>githubEmail.data.find((email) => email.primary)\<close> is \<open>find primary\<close>, which is
  \<open>None\<close> where JavaScript gives \<open>undefined\<close>; destructuring \<open>undefined\<close> throws a
  \<open>TypeError\<close>. The branch for a user that is already bound to the provider id omits
  the password; the branch that inserts a new user returns the inserted row as it is.
\<close>

definition githubData :: "env \<Rightarrow> string \<Rightarrow> db \<Rightarrow> (failure + jsval) \<times> db" where
  "githubData e githubAccessToken d =
     (case github_emails e githubAccessToken of
        Inl msg \<Rightarrow> (Inl (AxiosError msg), d)
      | Inr emails \<Rightarrow>
     (case find primary emails of
        None \<Rightarrow> (Inl (TypeError ''Cannot destructure property email of undefined''), d)
      | Some found \<Rightarrow>
     (case github_user e githubAccessToken of
        Inl msg \<Rightarrow> (Inl (AxiosError msg), d)
      | Inr profile \<Rightarrow>
     (case filter (\<lambda>u. githubId u = Some (gh_id profile)) (users d) of
        user # _ \<Rightarrow>
          let payload = \<lparr>userId = id_col user, tokenVersion = token_version user\<rparr>;
              refreshToken' = jwt_sign e payload (REFRESH_TOKEN_SECRET e)
                                (REFRESH_TOKEN_EXPIRATION e);
              accessToken' = jwt_sign e payload (ACCESS_TOKEN_SECRET e)
                               (ACCESS_TOKEN_EXPIRATION e);
              rest = omit ''password'' (row_object user)
          in (Inr (JObj [(''user'', JObj rest),
                         (''refreshToken'', JStr refreshToken'),
                         (''accessToken'', JStr accessToken')]), d)
      | [] \<Rightarrow>
          if filter (\<lambda>u. email u = ep_email found) (users d) \<noteq> []
          then (Inl (AppError 422 ''E-mail address is already taken.''), d)
          else if filter (\<lambda>u. name u = gh_login profile) (users d) \<noteq> []
          then (Inl (AppError 422 ''Name is already taken.''), d)
          else
            let (user, d') = insert_user (gh_login profile) (ep_email found) None
                               (Some (gh_id profile)) d;
                payload = \<lparr>userId = id_col user, tokenVersion = token_version user\<rparr>;
                refreshToken' = jwt_sign e payload (REFRESH_TOKEN_SECRET e)
                                  (REFRESH_TOKEN_EXPIRATION e);
                accessToken' = jwt_sign e payload (ACCESS_TOKEN_SECRET e)
                                 (ACCESS_TOKEN_EXPIRATION e)
            in (Inr (JObj [(''user'', JObj (row_object user)),
                           (''refreshToken'', JStr refreshToken'),
                           (''accessToken'', JStr accessToken')]), d')))))"

subsection \<open>The store invariant and sequential execution\<close>

text \<open>
  Every email is unique, every name is unique, and every \<open>githubId\<close> that is not null
  is unique.
\<close>

definition store_inv :: "db \<Rightarrow> bool" where
  "store_inv d =
     (distinct (map email (users d)) \<and>
      distinct (map name (users d)) \<and>
      distinct (List.map_filter githubId (users d)))"

text \<open>
  The four operations on the store as requests, and a sequence of requests handled one
  after the other, each on the store the previous one left.
\<close>

datatype request =
    Login string string
  | Register string string string string
  | Refresh string
  | GithubData string

fun handle :: "env \<Rightarrow> request \<Rightarrow> db \<Rightarrow> (failure + jsval) \<times> db" where
  "handle e (Login email' password') d = login e email' password' d"
| "handle e (Register name' email' password' confirmPassword') d =
     register e name' email' password' confirmPassword' d"
| "handle e (Refresh token) d = refreshToken e token d"
| "handle e (GithubData githubAccessToken) d = githubData e githubAccessToken d"

fun run_all :: "env \<Rightarrow> request list \<Rightarrow> db \<Rightarrow> db" where
  "run_all e [] d = d"
| "run_all e (r # rs) d = run_all e rs (snd (handle e r d))"

text \<open>
  Modelled from the spec: the invalidation event that increments the stored token
  version of a user ("increments only on explicit invalidation events"). No function of
  the service performs it.
\<close>

definition bump_token_version :: "int \<Rightarrow> db \<Rightarrow> db" where
  "bump_token_version uid d =
     d\<lparr>users := map (\<lambda>u. if id_col u = uid
                          then u\<lparr>token_version := token_version u + 1\<rparr> else u) (users d)\<rparr>"

subsection \<open>A concrete environment and concrete stores\<close>

text \<open>
  Test doubles for the collaborators, used to run the service on concrete inputs. The
  codec signs the refresh token of user 1 at token version 0 as \<open>rt-1-0\<close> and
  accepts that token under the refresh secret; it rejects \<open>rt-1-0-expired\<close> as
  expired and everything else as invalid. The provider knows two access tokens: one
  for an account with a primary email, one for an account whose emails are all
  secondary.
\<close>

definition demo_sign :: "payloadProps \<Rightarrow> string \<Rightarrow> string \<Rightarrow> string" where
  "demo_sign p secret ttl =
     (if secret = ''refresh-secret'' \<and> userId p = 1 \<and> tokenVersion p = 0
      then ''rt-1-0''
      else secret @ ''.'' @ ttl)"

definition demo_verify :: "string \<Rightarrow> string \<Rightarrow> jwt_error + payloadProps" where
  "demo_verify token secret =
     (if secret = ''refresh-secret'' \<and> token = ''rt-1-0''
      then Inr \<lparr>userId = 1, tokenVersion = 0\<rparr>
      else if secret = ''refresh-secret'' \<and> token = ''rt-1-0-expired''
      then Inl TokenExpiredError
      else Inl JsonWebTokenError)"

definition demo_emails :: "string \<Rightarrow> string + EmailProps list" where
  "demo_emails t =
     (if t = ''gh-ana''
      then Inr [\<lparr>ep_email = ''old@x.com'', primary = False, verified = True,
                  visibility = ''private''\<rparr>,
                \<lparr>ep_email = ''a@x.com'', primary = True, verified = True,
                  visibility = ''public''\<rparr>]
      else if t = ''gh-bob''
      then Inr [\<lparr>ep_email = ''b@x.com'', primary = False, verified = True,
                  visibility = ''private''\<rparr>]
      else Inl ''Request failed with status code 401'')"

definition demo_user :: "string \<Rightarrow> string + githubUser" where
  "demo_user t =
     (if t = ''gh-ana'' then Inr \<lparr>gh_id = 7, gh_login = ''ana''\<rparr>
      else if t = ''gh-bob'' then Inr \<lparr>gh_id = 8, gh_login = ''bob''\<rparr>
      else Inl ''Request failed with status code 401'')"

definition demo_env :: env where
  "demo_env =
     \<lparr>REFRESH_TOKEN_SECRET = ''refresh-secret'',
      REFRESH_TOKEN_EXPIRATION = ''7d'',
      ACCESS_TOKEN_SECRET = ''access-secret'',
      ACCESS_TOKEN_EXPIRATION = ''15m'',
      jwt_sign = demo_sign,
      jwt_verify = demo_verify,
      bcrypt_hash = (\<lambda>pw rounds. ''hash.'' @ pw),
      bcrypt_matches = (\<lambda>pw h. h = ''hash.'' @ pw),
      github_emails = demo_emails,
      github_user = demo_user\<rparr>"

definition empty_db :: db where
  "empty_db = \<lparr>users = [], next_id = 1\<rparr>"

text \<open>The store after \<open>register\<close> of ana on the empty store.\<close>

definition local_db :: db where
  "local_db =
     \<lparr>users = [\<lparr>id_col = 1, name = ''ana'', email = ''a@x.com'',
                 password = Some ''hash.Secret1!'', githubId = None, token_version = 0\<rparr>],
      next_id = 2\<rparr>"

text \<open>The store after \<open>githubData\<close> for ana's provider account on the empty store.\<close>

definition federated_db :: db where
  "federated_db =
     \<lparr>users = [\<lparr>id_col = 1, name = ''ana'', email = ''a@x.com'',
                 password = None, githubId = Some 7, token_version = 0\<rparr>],
      next_id = 2\<rparr>"

text \<open>A store in which the name ana is taken and the email of ana's provider account is free.\<close>

definition renamed_db :: db where
  "renamed_db =
     \<lparr>users = [\<lparr>id_col = 1, name = ''ana'', email = ''z@x.com'',
                 password = Some ''hash.Secret1!'', githubId = None, token_version = 0\<rparr>],
      next_id = 2\<rparr>"

text \<open>
  The environment in which the provider reports other \<open>verified\<close> flags: each email
  of every email list gets the flag \<open>v\<close> assigns to it, everything else is the same.
\<close>

definition with_verified :: "(EmailProps \<Rightarrow> bool) \<Rightarrow> env \<Rightarrow> env" where
  "with_verified v e =
     e\<lparr>github_emails :=
         (\<lambda>t. case github_emails e t of
                 Inl msg \<Rightarrow> Inl msg
               | Inr emails \<Rightarrow> Inr (map (\<lambda>x. x\<lparr>verified := v x\<rparr>) emails))\<rparr>"

section \<open>Properties of the service\<close>

lemmas demo_defs = demo_env_def demo_sign_def demo_verify_def demo_emails_def demo_user_def
  empty_db_def local_db_def federated_db_def

lemma filter_nonempty_iff: "(filter P xs \<noteq> []) = (\<exists>x\<in>set xs. P x)"
  by (simp add: filter_empty_conv)

subsection \<open>A refresh token that fails verification\<close>

text \<open>
  \<open>refreshToken\<close> calls \<open>jwt.verify\<close> outside any \<open>try\<close>: whatever the codec throws
  leaves the function as it is, and the store is not read.
\<close>

lemma refreshToken_verify_failure:
  "jwt_verify e token (REFRESH_TOKEN_SECRET e) = Inl err \<Longrightarrow>
     refreshToken e token d = (Inl (JwtError err), d)"
  by (simp add: refreshToken_def)

text \<open>
  C1. The claim: a refresh token whose verification fails, in particular a well-formed
  but expired one, makes the refresh fail with the typed Unauthorized failure (an
  \<open>AppError\<close> with status 401) and no access token is issued. On the code, the expired
  token \<open>rt-1-0-expired\<close> makes \<open>refreshToken\<close> fail with the codec's own
  \<open>TokenExpiredError\<close>, which is not an \<open>AppError\<close>; no access token is issued and the
  store is unchanged.
\<close>

theorem refreshToken_expired_token_not_AppError:
  "refreshToken demo_env ''rt-1-0-expired'' local_db =
     (Inl (JwtError TokenExpiredError), local_db)
   \<and> \<not> is_AppError (JwtError TokenExpiredError)"
  by (simp add: refreshToken_def demo_defs)

subsection \<open>Login to an account without a password\<close>

lemma login_without_password:
  "filter (\<lambda>u. email u = email') (users d) = user # rest \<Longrightarrow> password user = None \<Longrightarrow>
     login e email' password' d = (Inl (Error ''data and hash arguments required''), d)"
  by (simp add: login_def bcrypt_compare_def)

text \<open>
  C2. The claim: a login whose email matches a stored user without a password fails
  with the typed InvalidCredential failure (an \<open>AppError\<close> with status 401) and never
  with an untyped error. On the code, the account that \<open>githubData\<close> creates on the empty
  store has no password, and a login with its email fails with the \<open>Error\<close> that
  \<open>bcrypt.compare\<close> raises for a null hash, which is not an \<open>AppError\<close>.
\<close>

theorem login_federation_only_account_not_AppError:
  "snd (githubData demo_env ''gh-ana'' empty_db) = federated_db
   \<and> login demo_env ''a@x.com'' ''Secret1!'' federated_db =
       (Inl (Error ''data and hash arguments required''), federated_db)
   \<and> \<not> is_AppError (Error ''data and hash arguments required'')"
  by (simp add: login_def githubData_def bcrypt_compare_def insert_user_def Let_def demo_defs)

subsection \<open>The password field of the returned user\<close>

lemma no_password_after_omit: "\<not> has_key ''password'' (omit ''password'' obj)"
  by (auto simp: has_key_def omit_def)

lemma login_user_without_password:
  "fst (login e email' password' d) = Inr out \<Longrightarrow>
     \<exists>rest rt at. out = JObj [(''user'', JObj rest), (''refreshToken'', JStr rt),
                              (''accessToken'', JStr at)]
        \<and> \<not> has_key ''password'' rest"
  by (auto simp: login_def Let_def no_password_after_omit
      split: list.splits sum.splits if_splits)

lemma register_user_without_password:
  "fst (register e name' email' password' confirmPassword' d) = Inr out \<Longrightarrow>
     \<exists>rest rt at. out = JObj [(''user'', JObj rest), (''refreshToken'', JStr rt),
                              (''accessToken'', JStr at)]
        \<and> \<not> has_key ''password'' rest"
  by (auto simp: register_def Let_def insert_user_def no_password_after_omit
      split: if_splits)

lemma githubData_bound_user_without_password:
  "fst (githubData e t d) = Inr out \<Longrightarrow> github_user e t = Inr profile \<Longrightarrow>
   \<exists>u\<in>set (users d). githubId u = Some (gh_id profile) \<Longrightarrow>
     \<exists>rest rt at. out = JObj [(''user'', JObj rest), (''refreshToken'', JStr rt),
                              (''accessToken'', JStr at)]
        \<and> \<not> has_key ''password'' rest"
  by (auto simp: githubData_def Let_def no_password_after_omit filter_empty_conv
      split: list.splits sum.splits option.splits if_splits)

text \<open>
  C3. The claim: every flow that returns a user returns it with the password field
  absent, the first-time federation insert included. \<open>login\<close>, \<open>register\<close> and the
  branch of \<open>githubData\<close> for a bound provider id omit the key (the three lemmas above).
  The branch that inserts a new user returns the inserted row as it is: on the empty
  store, the user object of the result has the key \<open>password\<close>, with the value null.
\<close>

theorem githubData_first_time_returns_password_field:
  "githubData demo_env ''gh-ana'' empty_db =
     (Inr (JObj [(''user'', JObj [(''id'', JNum 1), (''name'', JStr ''ana''),
                                  (''email'', JStr ''a@x.com''), (''password'', JNull),
                                  (''githubId'', JNum 7), (''token_version'', JNum 0)]),
                 (''refreshToken'', JStr ''rt-1-0''),
                 (''accessToken'', JStr ''access-secret.15m'')]),
      federated_db)
   \<and> has_key ''password'' [(''id'', JNum 1), (''name'', JStr ''ana''),
                            (''email'', JStr ''a@x.com''), (''password'', JNull),
                            (''githubId'', JNum 7), (''token_version'', JNum 0)]"
  by (simp add: githubData_def insert_user_def row_object_def has_key_def Let_def demo_defs)

subsection \<open>Refresh and the token version\<close>

text \<open>
  The scenario of the specification: \<open>register\<close> of ana on the empty store succeeds,
  returns the user without the password, both tokens, and token version 0.
\<close>

lemma register_ana:
  "register demo_env ''ana'' ''a@x.com'' ''Secret1!'' ''Secret1!'' empty_db =
     (Inr (JObj [(''user'', JObj [(''id'', JNum 1), (''name'', JStr ''ana''),
                                  (''email'', JStr ''a@x.com''), (''githubId'', JNull),
                                  (''token_version'', JNum 0)]),
                 (''refreshToken'', JStr ''rt-1-0''),
                 (''accessToken'', JStr ''access-secret.15m'')]),
      local_db)"
  by (simp add: register_def insert_user_def row_object_def omit_def Let_def demo_defs)

lemma filter_eq_Cons_first: "filter P xs = x # rest \<Longrightarrow> x \<in> set xs \<and> P x"
proof -
  assume a: "filter P xs = x # rest"
  have "x \<in> set (filter P xs)" by (simp add: a)
  then show ?thesis by simp
qed

lemma refreshToken_success_iff:
  "(\<exists>out. fst (refreshToken e token d) = Inr out) \<longleftrightarrow>
   (\<exists>p. jwt_verify e token (REFRESH_TOKEN_SECRET e) = Inr p \<and>
        (\<exists>u\<in>set (users d). id_col u = userId p \<and> token_version u = tokenVersion p))"
  by (auto simp: refreshToken_def Let_def filter_empty_conv split: sum.splits list.splits
      dest: filter_eq_Cons_first)

lemma refreshToken_no_match:
  "jwt_verify e token (REFRESH_TOKEN_SECRET e) = Inr p \<Longrightarrow>
   \<not> (\<exists>u\<in>set (users d). id_col u = userId p \<and> token_version u = tokenVersion p) \<Longrightarrow>
   refreshToken e token d = (Inl (AppError 401 ''Refresh token is invalid.''), d)"
  by (auto simp: refreshToken_def Let_def filter_empty_conv split: sum.splits list.splits)

lemma bump_no_match:
  "\<forall>u\<in>set (users d). id_col u = userId p \<longrightarrow> tokenVersion p \<le> token_version u \<Longrightarrow>
   \<not> (\<exists>u\<in>set (users (bump_token_version (userId p) d)).
          id_col u = userId p \<and> token_version u = tokenVersion p)"
  by (auto simp: bump_token_version_def)

text \<open>
  C4. \<open>refreshToken\<close> succeeds exactly when the token verifies and the store holds a
  user whose id and token version are those of the payload. For a verified token with
  no such user it fails with \<open>AppError 401\<close>. Incrementing the stored token version of
  the payload's user makes every token issued for that user so far (its version is at
  most the stored one) fail with \<open>AppError 401\<close>.
\<close>

theorem refreshToken_succeeds_iff_version_matches:
  "((\<exists>out. fst (refreshToken e token d) = Inr out) \<longleftrightarrow>
    (\<exists>p. jwt_verify e token (REFRESH_TOKEN_SECRET e) = Inr p \<and>
         (\<exists>u\<in>set (users d). id_col u = userId p \<and> token_version u = tokenVersion p)))
   \<and> (\<forall>p. jwt_verify e token (REFRESH_TOKEN_SECRET e) = Inr p \<and>
          \<not> (\<exists>u\<in>set (users d). id_col u = userId p \<and> token_version u = tokenVersion p)
          \<longrightarrow> refreshToken e token d = (Inl (AppError 401 ''Refresh token is invalid.''), d))
   \<and> (\<forall>p. jwt_verify e token (REFRESH_TOKEN_SECRET e) = Inr p \<and>
          (\<forall>u\<in>set (users d). id_col u = userId p \<longrightarrow> tokenVersion p \<le> token_version u)
          \<longrightarrow> refreshToken e token (bump_token_version (userId p) d) =
                (Inl (AppError 401 ''Refresh token is invalid.''),
                 bump_token_version (userId p) d))"
proof (intro conjI allI impI)
  show "(\<exists>out. fst (refreshToken e token d) = Inr out) \<longleftrightarrow>
    (\<exists>p. jwt_verify e token (REFRESH_TOKEN_SECRET e) = Inr p \<and>
         (\<exists>u\<in>set (users d). id_col u = userId p \<and> token_version u = tokenVersion p))"
    by (rule refreshToken_success_iff)
next
  fix p
  assume "jwt_verify e token (REFRESH_TOKEN_SECRET e) = Inr p \<and>
          \<not> (\<exists>u\<in>set (users d). id_col u = userId p \<and> token_version u = tokenVersion p)"
  then show "refreshToken e token d = (Inl (AppError 401 ''Refresh token is invalid.''), d)"
    using refreshToken_no_match by blast
next
  fix p
  assume a: "jwt_verify e token (REFRESH_TOKEN_SECRET e) = Inr p \<and>
          (\<forall>u\<in>set (users d). id_col u = userId p \<longrightarrow> tokenVersion p \<le> token_version u)"
  then have "\<not> (\<exists>u\<in>set (users (bump_token_version (userId p) d)).
          id_col u = userId p \<and> token_version u = tokenVersion p)"
    by (intro bump_no_match) simp
  with a show "refreshToken e token (bump_token_version (userId p) d) =
                (Inl (AppError 401 ''Refresh token is invalid.''),
                 bump_token_version (userId p) d)"
    by (intro refreshToken_no_match) simp_all
qed

theorem refreshToken_succeeds_iff_version_matches_witness:
  "(\<exists>out. fst (refreshToken demo_env ''rt-1-0'' local_db) = Inr out)
   \<and> refreshToken demo_env ''rt-1-0'' (bump_token_version 1 local_db) =
        (Inl (AppError 401 ''Refresh token is invalid.''), bump_token_version 1 local_db)
   \<and> refreshToken demo_env ''rt-1-0'' empty_db =
        (Inl (AppError 401 ''Refresh token is invalid.''), empty_db)"
proof -
  let ?p = "\<lparr>userId = 1, tokenVersion = 0\<rparr>"
  have v: "jwt_verify demo_env ''rt-1-0'' (REFRESH_TOKEN_SECRET demo_env) = Inr ?p"
    by (simp add: demo_defs)
  have m: "\<exists>u\<in>set (users local_db). id_col u = userId ?p \<and> token_version u = tokenVersion ?p"
    by (simp add: demo_defs)
  have le: "\<forall>u\<in>set (users local_db). id_col u = userId ?p \<longrightarrow> tokenVersion ?p \<le> token_version u"
    by (simp add: demo_defs)
  have n: "\<not> (\<exists>u\<in>set (users empty_db). id_col u = userId ?p \<and> token_version u = tokenVersion ?p)"
    by (simp add: demo_defs)
  note t1 = refreshToken_succeeds_iff_version_matches [of demo_env "''rt-1-0''" local_db]
  note t2 = refreshToken_succeeds_iff_version_matches [of demo_env "''rt-1-0''" empty_db]
  have 1: "\<exists>out. fst (refreshToken demo_env ''rt-1-0'' local_db) = Inr out"
    using t1 v m by blast
  have 2: "refreshToken demo_env ''rt-1-0'' (bump_token_version (userId ?p) local_db) =
        (Inl (AppError 401 ''Refresh token is invalid.''), bump_token_version (userId ?p) local_db)"
    using t1 v le by blast
  have 3: "refreshToken demo_env ''rt-1-0'' empty_db =
        (Inl (AppError 401 ''Refresh token is invalid.''), empty_db)"
    using t2 v n by blast
  from 1 2 3 show ?thesis by simp
qed

subsection \<open>The order of the two uniqueness checks\<close>

lemma register_email_taken:
  "\<exists>u\<in>set (users d). email u = email' \<Longrightarrow>
   register e name' email' password' confirmPassword' d =
     (Inl (AppError 422 ''E-mail address is already taken.''), d)"
  by (simp add: register_def filter_nonempty_iff)

lemma githubData_email_taken:
  "github_emails e t = Inr emails \<Longrightarrow> find primary emails = Some found \<Longrightarrow>
   github_user e t = Inr profile \<Longrightarrow>
   \<forall>u\<in>set (users d). githubId u \<noteq> Some (gh_id profile) \<Longrightarrow>
   \<exists>u\<in>set (users d). email u = ep_email found \<Longrightarrow>
   githubData e t d = (Inl (AppError 422 ''E-mail address is already taken.''), d)"
proof -
  assume a: "github_emails e t = Inr emails" "find primary emails = Some found"
    "github_user e t = Inr profile"
    and b: "\<forall>u\<in>set (users d). githubId u \<noteq> Some (gh_id profile)"
    and c: "\<exists>u\<in>set (users d). email u = ep_email found"
  from b have "filter (\<lambda>u. githubId u = Some (gh_id profile)) (users d) = []"
    by (simp add: filter_empty_conv)
  moreover from c have "filter (\<lambda>u. email u = ep_email found) (users d) \<noteq> []"
    by (simp add: filter_nonempty_iff)
  ultimately show ?thesis
    using a by (simp add: githubData_def)
qed

lemma register_name_taken:
  "\<forall>u\<in>set (users d). email u \<noteq> email' \<Longrightarrow> \<exists>u\<in>set (users d). name u = name' \<Longrightarrow>
   register e name' email' password' confirmPassword' d =
     (Inl (AppError 422 ''Name is already taken.''), d)"
  by (simp add: register_def filter_nonempty_iff filter_empty_conv)

lemma register_email_conflict_iff:
  "fst (register e name' email' password' confirmPassword' d) =
     Inl (AppError 422 ''E-mail address is already taken.'') \<longleftrightarrow>
   (\<exists>u\<in>set (users d). email u = email')"
  by (auto simp: register_def Let_def filter_empty_conv split: prod.splits)

lemma register_name_conflict_iff:
  "fst (register e name' email' password' confirmPassword' d) =
     Inl (AppError 422 ''Name is already taken.'') \<longleftrightarrow>
   (\<forall>u\<in>set (users d). email u \<noteq> email') \<and> (\<exists>u\<in>set (users d). name u = name')"
  by (auto simp: register_def Let_def filter_empty_conv split: prod.splits)

lemma register_success_iff:
  "(\<exists>out. fst (register e name' email' password' confirmPassword' d) = Inr out) \<longleftrightarrow>
   (\<forall>u\<in>set (users d). email u \<noteq> email') \<and> (\<forall>u\<in>set (users d). name u \<noteq> name')"
  by (auto simp: register_def Let_def filter_empty_conv split: prod.splits)

lemma githubData_first_time_unfold:
  assumes "github_emails e t = Inr emails" "find primary emails = Some found"
    "github_user e t = Inr profile"
    "\<forall>u\<in>set (users d). githubId u \<noteq> Some (gh_id profile)"
  shows "fst (githubData e t d) =
     (if \<exists>u\<in>set (users d). email u = ep_email found
      then Inl (AppError 422 ''E-mail address is already taken.'')
      else if \<exists>u\<in>set (users d). name u = gh_login profile
      then Inl (AppError 422 ''Name is already taken.'')
      else fst (let (user, d') = insert_user (gh_login profile) (ep_email found) None
                               (Some (gh_id profile)) d;
                payload = \<lparr>userId = id_col user, tokenVersion = token_version user\<rparr>;
                refreshToken' = jwt_sign e payload (REFRESH_TOKEN_SECRET e)
                                  (REFRESH_TOKEN_EXPIRATION e);
                accessToken' = jwt_sign e payload (ACCESS_TOKEN_SECRET e)
                                 (ACCESS_TOKEN_EXPIRATION e)
            in (Inr (JObj [(''user'', JObj (row_object user)),
                           (''refreshToken'', JStr refreshToken'),
                           (''accessToken'', JStr accessToken')]), d')))"
proof -
  from assms(4) have "filter (\<lambda>u. githubId u = Some (gh_id profile)) (users d) = []"
    by (simp add: filter_empty_conv)
  with assms(1-3) show ?thesis
    by (simp add: githubData_def filter_nonempty_iff)
qed

lemma githubData_email_conflict_iff:
  assumes "github_emails e t = Inr emails" "find primary emails = Some found"
    "github_user e t = Inr profile"
    "\<forall>u\<in>set (users d). githubId u \<noteq> Some (gh_id profile)"
  shows "fst (githubData e t d) = Inl (AppError 422 ''E-mail address is already taken.'') \<longleftrightarrow>
     (\<exists>u\<in>set (users d). email u = ep_email found)"
  by (auto simp: githubData_first_time_unfold [OF assms] Let_def split: prod.splits)

lemma githubData_name_conflict_iff:
  assumes "github_emails e t = Inr emails" "find primary emails = Some found"
    "github_user e t = Inr profile"
    "\<forall>u\<in>set (users d). githubId u \<noteq> Some (gh_id profile)"
  shows "fst (githubData e t d) = Inl (AppError 422 ''Name is already taken.'') \<longleftrightarrow>
     (\<forall>u\<in>set (users d). email u \<noteq> ep_email found) \<and>
     (\<exists>u\<in>set (users d). name u = gh_login profile)"
  by (auto simp: githubData_first_time_unfold [OF assms] Let_def split: prod.splits)

lemma githubData_first_time_success_iff:
  assumes "github_emails e t = Inr emails" "find primary emails = Some found"
    "github_user e t = Inr profile"
    "\<forall>u\<in>set (users d). githubId u \<noteq> Some (gh_id profile)"
  shows "(\<exists>out. fst (githubData e t d) = Inr out) \<longleftrightarrow>
     (\<forall>u\<in>set (users d). email u \<noteq> ep_email found) \<and>
     (\<forall>u\<in>set (users d). name u \<noteq> gh_login profile)"
  by (auto simp: githubData_first_time_unfold [OF assms] Let_def split: prod.splits)

text \<open>
  C5. In \<open>register\<close> and in the first-time branch of \<open>githubData\<close> the email is checked
  first and the name second. The email conflict is the result exactly when a row has
  the email; the name conflict is the result exactly when no row has the email and a
  row has the name; the call succeeds exactly when neither is taken. So when both are
  taken, the failure is the \<open>AppError 422\<close> of the email.
\<close>

theorem email_check_precedes_name_check:
  "(fst (register e name' email' password' confirmPassword' d) =
       Inl (AppError 422 ''E-mail address is already taken.'') \<longleftrightarrow>
     (\<exists>u\<in>set (users d). email u = email'))
   \<and> (fst (register e name' email' password' confirmPassword' d) =
       Inl (AppError 422 ''Name is already taken.'') \<longleftrightarrow>
     (\<forall>u\<in>set (users d). email u \<noteq> email') \<and> (\<exists>u\<in>set (users d). name u = name'))
   \<and> ((\<exists>out. fst (register e name' email' password' confirmPassword' d) = Inr out) \<longleftrightarrow>
     (\<forall>u\<in>set (users d). email u \<noteq> email') \<and> (\<forall>u\<in>set (users d). name u \<noteq> name'))
   \<and> ((\<exists>u\<in>set (users d). email u = email') \<and> (\<exists>u\<in>set (users d). name u = name')
      \<longrightarrow> register e name' email' password' confirmPassword' d =
            (Inl (AppError 422 ''E-mail address is already taken.''), d))
   \<and> (github_emails e t = Inr emails \<and> find primary emails = Some found \<and>
      github_user e t = Inr profile \<and>
      (\<forall>u\<in>set (users d). githubId u \<noteq> Some (gh_id profile))
      \<longrightarrow>
        (fst (githubData e t d) = Inl (AppError 422 ''E-mail address is already taken.'') \<longleftrightarrow>
           (\<exists>u\<in>set (users d). email u = ep_email found))
      \<and> (fst (githubData e t d) = Inl (AppError 422 ''Name is already taken.'') \<longleftrightarrow>
           (\<forall>u\<in>set (users d). email u \<noteq> ep_email found) \<and>
           (\<exists>u\<in>set (users d). name u = gh_login profile))
      \<and> ((\<exists>out. fst (githubData e t d) = Inr out) \<longleftrightarrow>
           (\<forall>u\<in>set (users d). email u \<noteq> ep_email found) \<and>
           (\<forall>u\<in>set (users d). name u \<noteq> gh_login profile))
      \<and> ((\<exists>u\<in>set (users d). email u = ep_email found) \<and>
          (\<exists>u\<in>set (users d). name u = gh_login profile)
          \<longrightarrow> githubData e t d =
                (Inl (AppError 422 ''E-mail address is already taken.''), d)))"
proof (intro conjI impI)
  show "fst (register e name' email' password' confirmPassword' d) =
       Inl (AppError 422 ''E-mail address is already taken.'') \<longleftrightarrow>
     (\<exists>u\<in>set (users d). email u = email')"
    by (rule register_email_conflict_iff)
next
  show "fst (register e name' email' password' confirmPassword' d) =
       Inl (AppError 422 ''Name is already taken.'') \<longleftrightarrow>
     (\<forall>u\<in>set (users d). email u \<noteq> email') \<and> (\<exists>u\<in>set (users d). name u = name')"
    by (rule register_name_conflict_iff)
next
  show "(\<exists>out. fst (register e name' email' password' confirmPassword' d) = Inr out) \<longleftrightarrow>
     (\<forall>u\<in>set (users d). email u \<noteq> email') \<and> (\<forall>u\<in>set (users d). name u \<noteq> name')"
    by (rule register_success_iff)
next
  assume "(\<exists>u\<in>set (users d). email u = email') \<and> (\<exists>u\<in>set (users d). name u = name')"
  then show "register e name' email' password' confirmPassword' d =
            (Inl (AppError 422 ''E-mail address is already taken.''), d)"
    by (simp add: register_email_taken)
next
  assume h: "github_emails e t = Inr emails \<and> find primary emails = Some found \<and>
      github_user e t = Inr profile \<and>
      (\<forall>u\<in>set (users d). githubId u \<noteq> Some (gh_id profile))"
  then have a: "github_emails e t = Inr emails" and b: "find primary emails = Some found"
    and c': "github_user e t = Inr profile"
    and g: "\<forall>u\<in>set (users d). githubId u \<noteq> Some (gh_id profile)"
    by blast+
  show "fst (githubData e t d) = Inl (AppError 422 ''E-mail address is already taken.'') \<longleftrightarrow>
           (\<exists>u\<in>set (users d). email u = ep_email found)"
    by (rule githubData_email_conflict_iff [OF a b c' g])
next
  assume h: "github_emails e t = Inr emails \<and> find primary emails = Some found \<and>
      github_user e t = Inr profile \<and>
      (\<forall>u\<in>set (users d). githubId u \<noteq> Some (gh_id profile))"
  then have a: "github_emails e t = Inr emails" and b: "find primary emails = Some found"
    and c': "github_user e t = Inr profile"
    and g: "\<forall>u\<in>set (users d). githubId u \<noteq> Some (gh_id profile)"
    by blast+
  show "fst (githubData e t d) = Inl (AppError 422 ''Name is already taken.'') \<longleftrightarrow>
           (\<forall>u\<in>set (users d). email u \<noteq> ep_email found) \<and>
           (\<exists>u\<in>set (users d). name u = gh_login profile)"
    by (rule githubData_name_conflict_iff [OF a b c' g])
next
  assume h: "github_emails e t = Inr emails \<and> find primary emails = Some found \<and>
      github_user e t = Inr profile \<and>
      (\<forall>u\<in>set (users d). githubId u \<noteq> Some (gh_id profile))"
  then have a: "github_emails e t = Inr emails" and b: "find primary emails = Some found"
    and c': "github_user e t = Inr profile"
    and g: "\<forall>u\<in>set (users d). githubId u \<noteq> Some (gh_id profile)"
    by blast+
  show "(\<exists>out. fst (githubData e t d) = Inr out) \<longleftrightarrow>
           (\<forall>u\<in>set (users d). email u \<noteq> ep_email found) \<and>
           (\<forall>u\<in>set (users d). name u \<noteq> gh_login profile)"
    by (rule githubData_first_time_success_iff [OF a b c' g])
next
  assume h: "github_emails e t = Inr emails \<and> find primary emails = Some found \<and>
      github_user e t = Inr profile \<and>
      (\<forall>u\<in>set (users d). githubId u \<noteq> Some (gh_id profile))"
    and c: "(\<exists>u\<in>set (users d). email u = ep_email found) \<and>
          (\<exists>u\<in>set (users d). name u = gh_login profile)"
  from h have a: "github_emails e t = Inr emails" and b: "find primary emails = Some found"
    and c': "github_user e t = Inr profile"
    and g: "\<forall>u\<in>set (users d). githubId u \<noteq> Some (gh_id profile)"
    by blast+
  from c have m: "\<exists>u\<in>set (users d). email u = ep_email found" by blast
  show "githubData e t d =
                (Inl (AppError 422 ''E-mail address is already taken.''), d)"
    by (rule githubData_email_taken [OF a b c' g m])
qed

theorem email_check_precedes_name_check_witness:
  "register demo_env ''ana'' ''a@x.com'' ''pw'' ''pw'' local_db =
     (Inl (AppError 422 ''E-mail address is already taken.''), local_db)
   \<and> fst (register demo_env ''ana'' ''z@x.com'' ''pw'' ''pw'' local_db) =
     Inl (AppError 422 ''Name is already taken.'')
   \<and> fst (register demo_env ''bob'' ''a@x.com'' ''pw'' ''pw'' local_db) =
     Inl (AppError 422 ''E-mail address is already taken.'')
   \<and> (\<exists>out. fst (register demo_env ''bob'' ''b@x.com'' ''pw'' ''pw'' local_db) = Inr out)
   \<and> githubData demo_env ''gh-ana'' local_db =
     (Inl (AppError 422 ''E-mail address is already taken.''), local_db)
   \<and> fst (githubData demo_env ''gh-ana'' renamed_db) =
     Inl (AppError 422 ''Name is already taken.'')
   \<and> (\<exists>out. fst (githubData demo_env ''gh-ana'' empty_db) = Inr out)"
proof -
  let ?found = "\<lparr>ep_email = ''a@x.com'', primary = True, verified = True,
                  visibility = ''public''\<rparr>"
  let ?emails = "[\<lparr>ep_email = ''old@x.com'', primary = False, verified = True,
                  visibility = ''private''\<rparr>, ?found]"
  let ?profile = "\<lparr>gh_id = 7, gh_login = ''ana''\<rparr>"
  note inst = email_check_precedes_name_check
      [where e = demo_env and t = "''gh-ana''" and emails = ?emails and found = ?found
         and profile = ?profile and password' = "''pw''" and confirmPassword' = "''pw''"]
  have both: "(\<exists>u\<in>set (users local_db). email u = ''a@x.com'') \<and>
              (\<exists>u\<in>set (users local_db). name u = ''ana'')"
    by (simp add: demo_defs)
  have name_only: "(\<forall>u\<in>set (users local_db). email u \<noteq> ''z@x.com'') \<and>
                   (\<exists>u\<in>set (users local_db). name u = ''ana'')"
    by (simp add: demo_defs)
  have email_only: "\<exists>u\<in>set (users local_db). email u = ''a@x.com''"
    by (simp add: demo_defs)
  have neither: "(\<forall>u\<in>set (users local_db). email u \<noteq> ''b@x.com'') \<and>
                 (\<forall>u\<in>set (users local_db). name u \<noteq> ''bob'')"
    by (simp add: demo_defs)
  have prov: "github_emails demo_env ''gh-ana'' = Inr ?emails \<and>
      find primary ?emails = Some ?found \<and>
      github_user demo_env ''gh-ana'' = Inr ?profile"
    by (simp add: demo_defs)
  have unbound: "\<forall>u\<in>set (users local_db). githubId u \<noteq> Some (gh_id ?profile)"
    "\<forall>u\<in>set (users renamed_db). githubId u \<noteq> Some (gh_id ?profile)"
    "\<forall>u\<in>set (users empty_db). githubId u \<noteq> Some (gh_id ?profile)"
    by (simp_all add: demo_defs renamed_db_def)
  have g_both: "(\<exists>u\<in>set (users local_db). email u = ep_email ?found) \<and>
                (\<exists>u\<in>set (users local_db). name u = gh_login ?profile)"
    by (simp add: demo_defs)
  have g_name_only: "(\<forall>u\<in>set (users renamed_db). email u \<noteq> ep_email ?found) \<and>
                     (\<exists>u\<in>set (users renamed_db). name u = gh_login ?profile)"
    by (simp add: renamed_db_def)
  have g_neither: "(\<forall>u\<in>set (users empty_db). email u \<noteq> ep_email ?found) \<and>
                   (\<forall>u\<in>set (users empty_db). name u \<noteq> gh_login ?profile)"
    by (simp add: demo_defs)
  have 1: "register demo_env ''ana'' ''a@x.com'' ''pw'' ''pw'' local_db =
     (Inl (AppError 422 ''E-mail address is already taken.''), local_db)"
    using inst [where d = local_db and email' = "''a@x.com''" and name' = "''ana''"] both
    by blast
  have 2: "fst (register demo_env ''ana'' ''z@x.com'' ''pw'' ''pw'' local_db) =
     Inl (AppError 422 ''Name is already taken.'')"
    using inst [where d = local_db and email' = "''z@x.com''" and name' = "''ana''"] name_only
    by blast
  have 3: "fst (register demo_env ''bob'' ''a@x.com'' ''pw'' ''pw'' local_db) =
     Inl (AppError 422 ''E-mail address is already taken.'')"
    using inst [where d = local_db and email' = "''a@x.com''" and name' = "''bob''"] email_only
    by blast
  have 4: "\<exists>out. fst (register demo_env ''bob'' ''b@x.com'' ''pw'' ''pw'' local_db) = Inr out"
    using inst [where d = local_db and email' = "''b@x.com''" and name' = "''bob''"] neither
    by blast
  have 5: "githubData demo_env ''gh-ana'' local_db =
     (Inl (AppError 422 ''E-mail address is already taken.''), local_db)"
    using inst [where d = local_db and email' = "''a@x.com''" and name' = "''ana''"]
      prov unbound(1) g_both
    by blast
  have 6: "fst (githubData demo_env ''gh-ana'' renamed_db) =
     Inl (AppError 422 ''Name is already taken.'')"
    using inst [where d = renamed_db and email' = "''a@x.com''" and name' = "''ana''"]
      prov unbound(2) g_name_only
    by blast
  have 7: "\<exists>out. fst (githubData demo_env ''gh-ana'' empty_db) = Inr out"
    using inst [where d = empty_db and email' = "''a@x.com''" and name' = "''ana''"]
      prov unbound(3) g_neither
    by blast
  from 1 2 3 4 5 6 7 show ?thesis by blast
qed

subsection \<open>A conflict leaves the store as it was\<close>

lemma failure_leaves_store_unchanged:
  "fst (handle e r d) = Inl err \<Longrightarrow> snd (handle e r d) = d"
  by (cases r) (auto simp: login_def register_def refreshToken_def githubData_def Let_def
      insert_user_def split: if_splits sum.splits option.splits list.splits)

text \<open>
  C6. When \<open>register\<close> or \<open>githubData\<close> fails with a conflict (\<open>AppError 422\<close>), the
  store it leaves is the store it was given: no row is inserted and no row is changed.
\<close>

theorem conflict_leaves_store_unchanged:
  "(fst (register e name' email' password' confirmPassword' d) = Inl (AppError 422 m)
      \<longrightarrow> snd (register e name' email' password' confirmPassword' d) = d)
   \<and> (fst (githubData e t d) = Inl (AppError 422 m)
      \<longrightarrow> snd (githubData e t d) = d)"
  by (auto simp: register_def githubData_def Let_def insert_user_def
      split: if_splits sum.splits option.splits list.splits)

theorem conflict_leaves_store_unchanged_witness:
  "fst (register demo_env ''bob'' ''a@x.com'' ''pw'' ''pw'' local_db) =
     Inl (AppError 422 ''E-mail address is already taken.'')
   \<and> snd (register demo_env ''bob'' ''a@x.com'' ''pw'' ''pw'' local_db) = local_db
   \<and> fst (githubData demo_env ''gh-ana'' local_db) =
     Inl (AppError 422 ''E-mail address is already taken.'')
   \<and> snd (githubData demo_env ''gh-ana'' local_db) = local_db"
proof -
  have h1: "fst (register demo_env ''bob'' ''a@x.com'' ''pw'' ''pw'' local_db) =
     Inl (AppError 422 ''E-mail address is already taken.'')"
    by (simp add: register_def demo_defs)
  have h2: "fst (githubData demo_env ''gh-ana'' local_db) =
     Inl (AppError 422 ''E-mail address is already taken.'')"
    by (simp add: githubData_def demo_defs)
  from conflict_leaves_store_unchanged
         [of demo_env "''bob''" "''a@x.com''" "''pw''" "''pw''" local_db
             "''E-mail address is already taken.''" "''gh-ana''"] h1 h2
  show ?thesis by blast
qed

subsection \<open>The store invariant\<close>

lemma set_map_filter_iff:
  "g \<in> set (List.map_filter f xs) \<longleftrightarrow> (\<exists>x\<in>set xs. f x = Some g)"
  by (induction xs) (auto simp: List.map_filter_simps split: option.splits)

lemma map_filter_snoc:
  "List.map_filter f (xs @ [x]) =
     List.map_filter f xs @ (case f x of None \<Rightarrow> [] | Some y \<Rightarrow> [y])"
  by (induction xs) (auto simp: List.map_filter_simps split: option.splits)

lemma insert_user_store_inv:
  assumes "store_inv d"
    and "\<forall>u\<in>set (users d). email u \<noteq> email'"
    and "\<forall>u\<in>set (users d). name u \<noteq> name'"
    and "\<forall>g. githubId' = Some g \<longrightarrow> (\<forall>u\<in>set (users d). githubId u \<noteq> Some g)"
  shows "store_inv (snd (insert_user name' email' password' githubId' d))"
proof -
  let ?u = "\<lparr>id_col = next_id d, name = name', email = email',
             password = password', githubId = githubId', token_version = 0\<rparr>"
  have us: "users (snd (insert_user name' email' password' githubId' d)) = users d @ [?u]"
    by (simp add: insert_user_def Let_def)
  have e: "distinct (map email (users d @ [?u]))"
    using assms(1,2) by (auto simp: store_inv_def)
  have n: "distinct (map name (users d @ [?u]))"
    using assms(1,3) by (auto simp: store_inv_def)
  have g: "distinct (List.map_filter githubId (users d @ [?u]))"
    using assms(1,4)
    by (auto simp: store_inv_def map_filter_snoc set_map_filter_iff split: option.splits)
  from e n g us show ?thesis
    by (simp add: store_inv_def)
qed

lemma login_store: "snd (login e email' password' d) = d"
  by (simp add: login_def Let_def split: list.splits sum.splits)

lemma refreshToken_store: "snd (refreshToken e token d) = d"
  by (simp add: refreshToken_def Let_def split: list.splits sum.splits)

lemma register_store_inv:
  "store_inv d \<Longrightarrow> store_inv (snd (register e name' email' password' confirmPassword' d))"
proof (cases "filter (\<lambda>u. email u = email') (users d) \<noteq> [] \<or>
              filter (\<lambda>u. name u = name') (users d) \<noteq> []")
  case True
  assume "store_inv d"
  with True show ?thesis by (auto simp: register_def)
next
  case False
  assume inv: "store_inv d"
  from False have f: "\<forall>u\<in>set (users d). email u \<noteq> email'" "\<forall>u\<in>set (users d). name u \<noteq> name'"
    by (auto simp: filter_empty_conv)
  from False have
    "snd (register e name' email' password' confirmPassword' d) =
       snd (insert_user name' email' (Some (bcrypt_hash e password' 12)) None d)"
    by (simp add: register_def Let_def split: prod.splits)
  with insert_user_store_inv [OF inv f] show ?thesis by simp
qed

lemma githubData_insert_branch:
  "github_emails e t = Inr emails \<Longrightarrow> find primary emails = Some found \<Longrightarrow>
   github_user e t = Inr profile \<Longrightarrow>
   filter (\<lambda>u. githubId u = Some (gh_id profile)) (users d) = [] \<Longrightarrow>
   filter (\<lambda>u. email u = ep_email found) (users d) = [] \<Longrightarrow>
   filter (\<lambda>u. name u = gh_login profile) (users d) = [] \<Longrightarrow>
   snd (githubData e t d) =
     snd (insert_user (gh_login profile) (ep_email found) None (Some (gh_id profile)) d)"
  by (simp add: githubData_def Let_def split: prod.splits)

lemma githubData_store_inv:
  assumes inv: "store_inv d"
  shows "store_inv (snd (githubData e t d))"
proof (cases "github_emails e t")
  case (Inl msg)
  with inv show ?thesis by (simp add: githubData_def)
next
  case emails: (Inr emails)
  show ?thesis
  proof (cases "find primary emails")
    case None
    with emails inv show ?thesis by (simp add: githubData_def)
  next
    case found: (Some found)
    show ?thesis
    proof (cases "github_user e t")
      case (Inl msg)
      with emails found inv show ?thesis by (simp add: githubData_def)
    next
      case profile: (Inr profile)
      show ?thesis
      proof (cases "filter (\<lambda>u. githubId u = Some (gh_id profile)) (users d) = [] \<and>
                    filter (\<lambda>u. email u = ep_email found) (users d) = [] \<and>
                    filter (\<lambda>u. name u = gh_login profile) (users d) = []")
        case True
        then have g: "\<forall>g. Some (gh_id profile) = Some g \<longrightarrow>
                          (\<forall>u\<in>set (users d). githubId u \<noteq> Some g)"
          and m: "\<forall>u\<in>set (users d). email u \<noteq> ep_email found"
          and n: "\<forall>u\<in>set (users d). name u \<noteq> gh_login profile"
          by (simp_all add: filter_empty_conv)
        from True githubData_insert_branch [OF emails found profile, of d]
          insert_user_store_inv [OF inv m n g]
        show ?thesis by simp
      next
        case False
        with emails found profile have "snd (githubData e t d) = d"
          by (auto simp: githubData_def Let_def split: list.splits)
        with inv show ?thesis by simp
      qed
    qed
  qed
qed

lemma handle_store_inv: "store_inv d \<Longrightarrow> store_inv (snd (handle e r d))"
  by (cases r) (simp_all add: login_store refreshToken_store register_store_inv
      githubData_store_inv)

text \<open>
  C7. From a store in which emails, names and non-null provider ids are unique, each
  of \<open>login\<close>, \<open>register\<close>, \<open>refreshToken\<close> and \<open>githubData\<close>, and every sequence of
  them run one after the other, leaves a store in which they are unique.
\<close>

theorem store_inv_preserved:
  "store_inv d \<Longrightarrow>
     store_inv (snd (login e email' password' d)) \<and>
     store_inv (snd (register e name' email' password' confirmPassword' d)) \<and>
     store_inv (snd (refreshToken e token d)) \<and>
     store_inv (snd (githubData e t d)) \<and>
     store_inv (run_all e rs d)"
proof -
  assume inv: "store_inv d"
  have "store_inv d' \<Longrightarrow> store_inv (run_all e rs d')" for d'
    by (induction rs arbitrary: d') (simp_all add: handle_store_inv)
  with inv show ?thesis
    by (simp add: login_store refreshToken_store register_store_inv githubData_store_inv)
qed

theorem store_inv_preserved_witness:
  "store_inv empty_db \<and>
   store_inv (snd (login demo_env ''a@x.com'' ''Secret1!'' empty_db)) \<and>
   store_inv (snd (register demo_env ''ana'' ''a@x.com'' ''Secret1!'' ''Secret1!'' empty_db)) \<and>
   store_inv (snd (refreshToken demo_env ''rt-1-0'' empty_db)) \<and>
   store_inv (snd (githubData demo_env ''gh-ana'' empty_db)) \<and>
   store_inv (run_all demo_env
                [Register ''bob'' ''b@x.com'' ''pw'' ''pw'', GithubData ''gh-ana'',
                 Register ''ana'' ''z@x.com'' ''pw'' ''pw'', Login ''b@x.com'' ''pw'',
                 Refresh ''rt-1-0''] empty_db)"
proof -
  have h: "store_inv empty_db"
    by (simp add: store_inv_def empty_db_def List.map_filter_simps)
  from store_inv_preserved [OF h] h show ?thesis by blast
qed

lemma run_all_demo:
  "users (run_all demo_env
                [Register ''bob'' ''b@x.com'' ''pw'' ''pw'', GithubData ''gh-ana'',
                 Register ''ana'' ''z@x.com'' ''pw'' ''pw'', Login ''b@x.com'' ''pw'',
                 Refresh ''rt-1-0''] empty_db) =
   [\<lparr>id_col = 1, name = ''bob'', email = ''b@x.com'', password = Some ''hash.pw'',
      githubId = None, token_version = 0\<rparr>,
    \<lparr>id_col = 2, name = ''ana'', email = ''a@x.com'', password = None,
      githubId = Some 7, token_version = 0\<rparr>]"
  by (simp add: register_def githubData_def login_def refreshToken_def insert_user_def
      bcrypt_compare_def Let_def demo_defs)

subsection \<open>The two failures of login\<close>

lemma login_404_iff:
  "(\<exists>m. fst (login e email' password' d) = Inl (AppError 404 m)) \<longleftrightarrow>
   \<not> (\<exists>u\<in>set (users d). email u = email')"
  by (auto simp: login_def Let_def bcrypt_compare_def filter_empty_conv
      split: list.splits sum.splits option.splits if_splits dest: filter_eq_Cons_first)

lemma login_401_iff:
  "(\<exists>m. fst (login e email' password' d) = Inl (AppError 401 m)) \<longleftrightarrow>
   (\<exists>user rest. filter (\<lambda>u. email u = email') (users d) = user # rest \<and>
                 bcrypt_compare e password' (password user) = Inr False)"
  by (auto simp: login_def Let_def bcrypt_compare_def
      split: list.splits sum.splits option.splits if_splits)

text \<open>
  C8. \<open>login\<close> fails with \<open>AppError 404\<close> exactly when no stored user has the email, and
  with \<open>AppError 401\<close> exactly when a user has it and the comparison of the password
  with the stored hash of the first such user returns false. Both are \<open>AppError\<close>s, with
  different status codes.
\<close>

theorem login_failure_kinds:
  "((\<exists>m. fst (login e email' password' d) = Inl (AppError 404 m)) \<longleftrightarrow>
      \<not> (\<exists>u\<in>set (users d). email u = email'))
   \<and> ((\<exists>m. fst (login e email' password' d) = Inl (AppError 401 m)) \<longleftrightarrow>
      (\<exists>user rest. filter (\<lambda>u. email u = email') (users d) = user # rest \<and>
                    bcrypt_compare e password' (password user) = Inr False))
   \<and> (\<forall>m m'. AppError 404 m \<noteq> AppError 401 m')
   \<and> (\<forall>s m. is_AppError (AppError s m))"
  using login_404_iff [of e email' password' d] login_401_iff [of e email' password' d]
  by simp

theorem login_failure_kinds_witness:
  "fst (login demo_env ''z@x.com'' ''Secret1!'' local_db) =
     Inl (AppError 404 ''User with given e-mail address not found.'')
   \<and> \<not> (\<exists>u\<in>set (users local_db). email u = ''z@x.com'')
   \<and> fst (login demo_env ''a@x.com'' ''wrong'' local_db) =
     Inl (AppError 401 ''Invalid password.'')
   \<and> (\<exists>user rest. filter (\<lambda>u. email u = ''a@x.com'') (users local_db) = user # rest \<and>
                    bcrypt_compare demo_env ''wrong'' (password user) = Inr False)"
proof -
  have 1: "fst (login demo_env ''z@x.com'' ''Secret1!'' local_db) =
     Inl (AppError 404 ''User with given e-mail address not found.'')"
    by (simp add: login_def demo_defs)
  have 2: "fst (login demo_env ''a@x.com'' ''wrong'' local_db) =
     Inl (AppError 401 ''Invalid password.'')"
    by (simp add: login_def bcrypt_compare_def demo_defs)
  from 1 2 login_failure_kinds [of demo_env "''z@x.com''" "''Secret1!''" local_db]
    login_failure_kinds [of demo_env "''a@x.com''" "''wrong''" local_db]
  show ?thesis by blast
qed

subsection \<open>The result of a successful refresh\<close>

lemma payload_eta: "\<lparr>userId = userId p, tokenVersion = tokenVersion p\<rparr> = (p::payloadProps)"
  by (cases p) simp

text \<open>
  C9. A successful \<open>refreshToken\<close> returns an object with the single key
  \<open>accessToken\<close>, whose value is the payload of the presented token signed with the
  access secret and the access expiration. The object has no key \<open>refreshToken\<close>, and
  the store is unchanged.
\<close>

theorem refreshToken_returns_only_access_token:
  "fst (refreshToken e token d) = Inr out \<longrightarrow>
     (\<exists>p. jwt_verify e token (REFRESH_TOKEN_SECRET e) = Inr p \<and>
          out = JObj [(''accessToken'',
                       JStr (jwt_sign e p (ACCESS_TOKEN_SECRET e) (ACCESS_TOKEN_EXPIRATION e)))])
     \<and> (\<exists>obj. out = JObj obj \<and> map fst obj = [''accessToken''] \<and>
              \<not> has_key ''refreshToken'' obj)
     \<and> snd (refreshToken e token d) = d"
  by (auto simp: refreshToken_def Let_def has_key_def payload_eta
      split: sum.splits list.splits dest!: filter_eq_Cons_first)

theorem refreshToken_returns_only_access_token_witness:
  "fst (refreshToken demo_env ''rt-1-0'' local_db) =
     Inr (JObj [(''accessToken'', JStr ''access-secret.15m'')])
   \<and> jwt_sign demo_env \<lparr>userId = 1, tokenVersion = 0\<rparr> (ACCESS_TOKEN_SECRET demo_env)
       (ACCESS_TOKEN_EXPIRATION demo_env) = ''access-secret.15m''
   \<and> snd (refreshToken demo_env ''rt-1-0'' local_db) = local_db"
proof -
  have h: "fst (refreshToken demo_env ''rt-1-0'' local_db) =
     Inr (JObj [(''accessToken'', JStr ''access-secret.15m'')])"
    by (simp add: refreshToken_def demo_defs)
  have s: "jwt_sign demo_env \<lparr>userId = 1, tokenVersion = 0\<rparr> (ACCESS_TOKEN_SECRET demo_env)
       (ACCESS_TOKEN_EXPIRATION demo_env) = ''access-secret.15m''"
    by (simp add: demo_defs)
  from refreshToken_returns_only_access_token
         [of demo_env "''rt-1-0''" local_db "JObj [(''accessToken'', JStr ''access-secret.15m'')]"] h s
  show ?thesis by blast
qed

subsection \<open>An email list without a primary entry\<close>

lemma find_primary_None: "find primary emails = None \<longleftrightarrow> \<not> (\<exists>x\<in>set emails. primary x)"
  by (induction emails) simp_all

lemma find_primary_with_verified:
  "find primary (map (\<lambda>x. x\<lparr>verified := v x\<rparr>) emails) =
     map_option (\<lambda>x. x\<lparr>verified := v x\<rparr>) (find primary emails)"
  by (induction emails) simp_all

lemma githubData_no_primary:
  "github_emails e t = Inr emails \<Longrightarrow> \<not> (\<exists>x\<in>set emails. primary x) \<Longrightarrow>
   githubData e t d = (Inl (TypeError ''Cannot destructure property email of undefined''), d)"
proof -
  assume a: "github_emails e t = Inr emails" and "\<not> (\<exists>x\<in>set emails. primary x)"
  then have "find primary emails = None"
    by (simp add: find_primary_None)
  with a show ?thesis by (simp add: githubData_def)
qed

lemma githubData_success_primary:
  "fst (githubData e t d) = Inr out \<Longrightarrow>
   \<exists>emails. github_emails e t = Inr emails \<and> (\<exists>x\<in>set emails. primary x)"
proof (cases "github_emails e t")
  case (Inl msg)
  assume "fst (githubData e t d) = Inr out"
  with Inl show ?thesis by (simp add: githubData_def)
next
  case (Inr emails)
  assume ok: "fst (githubData e t d) = Inr out"
  have "find primary emails \<noteq> None"
  proof
    assume "find primary emails = None"
    with Inr ok show False by (simp add: githubData_def)
  qed
  with Inr show ?thesis by (simp add: find_primary_None)
qed

lemma githubData_with_verified:
  "githubData (with_verified v e) t d = githubData e t d"
proof (cases "github_emails e t")
  case (Inl msg)
  then show ?thesis by (simp add: githubData_def with_verified_def)
next
  case (Inr emails)
  show ?thesis
  proof (cases "find primary emails")
    case None
    with Inr show ?thesis
      by (simp add: githubData_def with_verified_def find_primary_with_verified)
  next
    case (Some found)
    with Inr show ?thesis
      by (simp add: githubData_def with_verified_def find_primary_with_verified Let_def
          split: sum.splits list.splits prod.splits)
  qed
qed

text \<open>
  C10. When no entry of the provider's email list has the \<open>primary\<close> flag,
  \<open>githubData\<close> throws a \<open>TypeError\<close>, whatever the store is and without changing it.
  So a successful call had a primary entry in the list. The \<open>verified\<close> flags have no
  influence on the result.
\<close>

theorem githubData_requires_primary_email:
  "(github_emails e t = Inr emails \<and> \<not> (\<exists>x\<in>set emails. primary x) \<longrightarrow>
      (\<forall>d'. githubData e t d' =
              (Inl (TypeError ''Cannot destructure property email of undefined''), d')))
   \<and> (fst (githubData e t d) = Inr out \<longrightarrow>
        (\<exists>emails'. github_emails e t = Inr emails' \<and> (\<exists>x\<in>set emails'. primary x)))
   \<and> githubData (with_verified v e) t d = githubData e t d"
  using githubData_no_primary [of e t emails] githubData_success_primary [of e t d out]
    githubData_with_verified [of v e t d]
  by simp

theorem githubData_requires_primary_email_witness:
  "github_emails demo_env ''gh-bob'' =
     Inr [\<lparr>ep_email = ''b@x.com'', primary = False, verified = True,
           visibility = ''private''\<rparr>]
   \<and> githubData demo_env ''gh-bob'' local_db =
       (Inl (TypeError ''Cannot destructure property email of undefined''), local_db)
   \<and> githubData demo_env ''gh-bob'' empty_db =
       (Inl (TypeError ''Cannot destructure property email of undefined''), empty_db)
   \<and> (\<exists>out. fst (githubData demo_env ''gh-ana'' empty_db) = Inr out)
   \<and> (\<exists>emails'. github_emails demo_env ''gh-ana'' = Inr emails' \<and>
                  (\<exists>x\<in>set emails'. primary x))"
proof -
  let ?emails = "[\<lparr>ep_email = ''b@x.com'', primary = False, verified = True,
                   visibility = ''private''\<rparr>]"
  have h: "github_emails demo_env ''gh-bob'' = Inr ?emails \<and>
           \<not> (\<exists>x\<in>set ?emails. primary x)"
    by (simp add: demo_defs)
  obtain out where ok: "fst (githubData demo_env ''gh-ana'' empty_db) = Inr out"
    by (simp add: githubData_def insert_user_def Let_def demo_defs)
  from githubData_requires_primary_email [of demo_env "''gh-bob''" ?emails] h
  have 1: "\<forall>d'. githubData demo_env ''gh-bob'' d' =
              (Inl (TypeError ''Cannot destructure property email of undefined''), d')"
    by blast
  from githubData_requires_primary_email [of demo_env "''gh-ana''" _ empty_db out] ok
  have 2: "\<exists>emails'. github_emails demo_env ''gh-ana'' = Inr emails' \<and>
                  (\<exists>x\<in>set emails'. primary x)"
    by blast
  from h 1 2 ok show ?thesis by blast
qed

end
